theory Spec2Isabelle
  imports Main "HOL-Library.Word" "HOL-Library.Sublist"
begin

unbundle bit_operations_syntax

section \<open>Strings and bytes\<close>

text \<open>
  The script \<^verbatim>\<open>scripts/send_qr.py\<close> works on Python \<^verbatim>\<open>str\<close> values (sequences of
  Unicode code points) and on \<^verbatim>\<open>bytes\<close>. A \<^verbatim>\<open>str\<close> is modelled as the list of its code
  points, a byte as an 8-bit word. \<open>ustr\<close> turns an ASCII literal of the theory into
  the \<^verbatim>\<open>str\<close> with the same characters.
\<close>

type_synonym pystr = "nat list"
type_synonym byte = "8 word"

definition ustr :: "string \<Rightarrow> pystr" where
  "ustr s = map of_char s"

text \<open>\<^verbatim>\<open>str(n)\<close> for a non-negative integer, as an f-string renders \<^verbatim>\<open>{len(png_bytes)}\<close>.\<close>

fun str_of_nat :: "nat \<Rightarrow> pystr" where
  "str_of_nat n = (if n < 10 then [48 + n] else str_of_nat (n div 10) @ [48 + n mod 10])"

declare str_of_nat.simps [simp del]

text \<open>
  \<^verbatim>\<open>str.isspace\<close> for one code point: the whitespace characters that \<^verbatim>\<open>str.strip()\<close>
  removes when called without an argument.
\<close>

definition isspace :: "nat \<Rightarrow> bool" where
  "isspace c =
     ((9 \<le> c \<and> c \<le> 13) \<or> (28 \<le> c \<and> c \<le> 32) \<or> c = 0x85 \<or> c = 0xA0 \<or> c = 0x1680 \<or>
      (0x2000 \<le> c \<and> c \<le> 0x200A) \<or> c = 0x2028 \<or> c = 0x2029 \<or> c = 0x202F \<or>
      c = 0x205F \<or> c = 0x3000)"

definition strip :: "pystr \<Rightarrow> pystr" where
  "strip s = rev (dropWhile isspace (rev (dropWhile isspace s)))"

section \<open>The payload: prefix removal and base64 decoding\<close>

definition data_uri_prefix :: pystr where
  "data_uri_prefix = ustr ''data:image/png;base64,''"

text \<open>
  \<^verbatim>\<open>re.sub(r'^data:image/png;base64,', '', b64_data)\<close>. The pattern has no
  metacharacter but the anchor, and without \<^verbatim>\<open>re.MULTILINE\<close> the anchor matches at
  index 0 only: the substitution removes the literal text when the string starts with
  it, and returns every other string as it is.
\<close>

definition re_sub :: "pystr \<Rightarrow> pystr" where
  "re_sub s = (if prefix data_uri_prefix s then drop (length data_uri_prefix) s else s)"

datatype py_exception =
    ValueError pystr
  | BinasciiError pystr
  | OSError pystr
  | TimeoutExpired
  | SubprocessFailure pystr

text \<open>\<^verbatim>\<open>str(e)\<close>, as the f-string of the \<^verbatim>\<open>except\<close> branch renders the exception.\<close>

fun exc_text :: "py_exception \<Rightarrow> pystr" where
  "exc_text (ValueError m) = m"
| "exc_text (BinasciiError m) = m"
| "exc_text (OSError m) = m"
| "exc_text TimeoutExpired = ustr ''Command timed out after 15 seconds''"
| "exc_text (SubprocessFailure m) = m"

text \<open>
  The decoding table of \<^verbatim>\<open>binascii\<close>: the 6-bit value of a character of the base64
  alphabet \<^verbatim>\<open>A-Z a-z 0-9 + /\<close>, and \<open>None\<close> for every other character.
\<close>

definition table_a2b_base64 :: "nat \<Rightarrow> byte option" where
  "table_a2b_base64 c =
     (if 65 \<le> c \<and> c \<le> 90 then Some (of_nat (c - 65))
      else if 97 \<le> c \<and> c \<le> 122 then Some (of_nat (c - 71))
      else if 48 \<le> c \<and> c \<le> 57 then Some (of_nat (c + 4))
      else if c = 43 then Some 62
      else if c = 47 then Some 63
      else None)"

text \<open>
  \<^verbatim>\<open>binascii.a2b_base64(s, strict_mode=False)\<close>, which \<^verbatim>\<open>base64.b64decode(s)\<close> calls
  with its default \<^verbatim>\<open>validate=False\<close>; the function is of Python's standard library
  (CPython 3.11), which the script imports. The loop reads one character at a time with
  the state \<open>quad_pos\<close> (position in the current group of four), \<open>leftchar\<close> (the bits
  not yet written), \<open>pads\<close> (padding characters seen in a row) and the bytes written
  so far:
  \<^item> a padding character \<^verbatim>\<open>=\<close> ends the decoding when it completes a group
    (\<open>quad_pos \<ge> 2\<close> and \<open>quad_pos + pads \<ge> 4\<close>), and is skipped otherwise;
  \<^item> a character outside the alphabet is skipped;
  \<^item> a character of the alphabet contributes six bits.
  At the end of the input, an unfinished group is an error.
\<close>

fun a2b_loop :: "nat list \<Rightarrow> nat \<Rightarrow> byte \<Rightarrow> nat \<Rightarrow> byte list \<Rightarrow> py_exception + byte list" where
  "a2b_loop [] quad_pos leftchar pads bin_data =
     (if quad_pos = 0 then Inr bin_data
      else if quad_pos = 1 then
        Inl (BinasciiError (ustr ''Invalid base64-encoded string: number of data characters (''
               @ str_of_nat (length bin_data div 3 * 4 + 1)
               @ ustr '') cannot be 1 more than a multiple of 4''))
      else Inl (BinasciiError (ustr ''Incorrect padding'')))"
| "a2b_loop (c # cs) quad_pos leftchar pads bin_data =
     (if c = 61 then
        (if quad_pos \<ge> 2 \<and> quad_pos + (pads + 1) \<ge> 4 then Inr bin_data
         else a2b_loop cs quad_pos leftchar (if quad_pos \<ge> 2 then pads + 1 else pads) bin_data)
      else
        (case table_a2b_base64 c of
           None \<Rightarrow> a2b_loop cs quad_pos leftchar pads bin_data
         | Some this_ch \<Rightarrow>
             (if quad_pos = 0 then a2b_loop cs 1 this_ch 0 bin_data
              else if quad_pos = 1 then
                a2b_loop cs 2 (this_ch AND 0x0f) 0
                  (bin_data @ [push_bit 2 leftchar OR drop_bit 4 this_ch])
              else if quad_pos = 2 then
                a2b_loop cs 3 (this_ch AND 0x03) 0
                  (bin_data @ [push_bit 4 leftchar OR drop_bit 2 this_ch])
              else
                a2b_loop cs 0 0 0 (bin_data @ [push_bit 6 leftchar OR this_ch]))))"

definition a2b_base64 :: "nat list \<Rightarrow> py_exception + byte list" where
  "a2b_base64 s = a2b_loop s 0 0 0 []"

text \<open>
  \<^verbatim>\<open>base64.b64decode(s)\<close> on a \<^verbatim>\<open>str\<close>: the text is first encoded as ASCII, which
  raises \<^verbatim>\<open>ValueError\<close> when a code point is above 127.
\<close>

definition b64decode :: "pystr \<Rightarrow> py_exception + byte list" where
  "b64decode s =
     (if list_ex (\<lambda>c. 128 \<le> c) s
      then Inl (ValueError (ustr ''string argument should contain only ASCII characters''))
      else a2b_base64 s)"

section \<open>The environment and what a run does\<close>

text \<open>
  What the script observes of its surroundings, as parameters of the model:
  \<^item> \<open>home\<close>: the home directory that \<^verbatim>\<open>os.path.expanduser\<close> finds, \<open>None\<close> when it
    finds none (\<^verbatim>\<open>expanduser\<close> then returns its argument unchanged);
  \<^item> \<open>strftime k\<close>: what the \<open>k\<close>-th call of \<^verbatim>\<open>time.strftime('%H:%M:%S')\<close> returns;
  \<^item> \<open>write_file path data\<close>: \<^verbatim>\<open>open(path, 'wb')\<close> followed by \<^verbatim>\<open>f.write(data)\<close>;
    \<open>None\<close> when both succeed, the exception raised otherwise;
  \<^item> \<open>subprocess_run args timeout\<close>: \<^verbatim>\<open>subprocess.run(args, capture_output=True,
    text=True, timeout=timeout)\<close>; the completed process, or the exception raised
    (\<^verbatim>\<open>TimeoutExpired\<close>, or a failure to start the child).
\<close>

record completed_process =
  returncode :: int
  stdout :: pystr
  stderr :: pystr

record env =
  home :: "pystr option"
  strftime :: "nat \<Rightarrow> pystr"
  write_file :: "pystr \<Rightarrow> byte list \<Rightarrow> py_exception option"
  subprocess_run :: "pystr list \<Rightarrow> nat \<Rightarrow> py_exception + completed_process"

text \<open>
  What a run does, in order: a line printed to standard output or to the error
  stream, the file written, a subprocess run with its argument list and timeout.
\<close>

datatype event =
    Print_stdout pystr
  | Print_stderr pystr
  | File_written pystr "byte list"
  | Subprocess "pystr list" nat

text \<open>
  How the process ends: \<^verbatim>\<open>sys.exit(n)\<close> or the normal return of \<^verbatim>\<open>main\<close> (status 0),
  or an exception that nothing handles, for which the interpreter prints a traceback
  and exits with status 1.
\<close>

datatype ending = Exit int | Unhandled py_exception

fun exit_status :: "ending \<Rightarrow> int" where
  "exit_status (Exit n) = n"
| "exit_status (Unhandled x) = 1"

text \<open>
  \<^verbatim>\<open>os.path.expanduser\<close> on a path that starts with \<^verbatim>\<open>~/\<close>: the home directory without
  its trailing slashes, followed by the rest of the path.
\<close>

definition expanduser :: "env \<Rightarrow> pystr \<Rightarrow> pystr" where
  "expanduser e path =
     (case home e of
        None \<Rightarrow> path
      | Some userhome \<Rightarrow> rev (dropWhile (\<lambda>c. c = 47) (rev userhome)) @ drop 1 path)"

definition subject :: pystr where
  "subject = [0x26A1] @ ustr '' Scan this QR NOW '' @ [0x2014] @ ustr '' 60 seconds!''"

definition html :: pystr where
  "html =
     ustr ''<h2>'' @ [0x26A1] @ ustr '' Scan this QR code with WhatsApp NOW</h2>''
     @ ustr ''<p><b>Open WhatsApp '' @ [0x2192] @ ustr '' Settings '' @ [0x2192]
     @ ustr '' Linked Devices '' @ [0x2192] @ ustr '' Link a Device</b></p>''
     @ ustr ''<p><img src='cid:qrcode' width='300'/></p>''
     @ ustr ''<p>'' @ [0x26A0, 0xFE0F]
     @ ustr '' This code expires in about 60 seconds! Scan it immediately.</p>''
     @ ustr ''<p>If it expired, just reply <b>connect</b> again and I'll send a fresh one.</p>''"

definition helper_args :: "env \<Rightarrow> pystr \<Rightarrow> pystr \<Rightarrow> pystr list" where
  "helper_args e owner_email qr_png_path =
     [ustr ''python3'', expanduser e (ustr ''~/.config/agents-plane/gmail.py''),
      ustr ''send_html'', owner_email, owner_email, subject, html,
      ustr ''qrcode:'' @ qr_png_path]"

text \<open>
  \<^verbatim>\<open>email_qr(owner_email, qr_png_path)\<close>: the events of the call, and the boolean it
  returns or the exception that leaves it.
\<close>

definition email_qr :: "env \<Rightarrow> pystr \<Rightarrow> pystr \<Rightarrow> event list \<times> (py_exception + bool)" where
  "email_qr e owner_email qr_png_path =
     (let args = helper_args e owner_email qr_png_path in
      case subprocess_run e args 15 of
        Inl x \<Rightarrow> ([Subprocess args 15], Inl x)
      | Inr result \<Rightarrow>
          ([Subprocess args 15]
             @ (if returncode result \<noteq> 0
                then [Print_stderr (ustr ''Email error: '' @ stderr result)] else []),
           Inr (returncode result = 0)))"

definition qr_path :: pystr where
  "qr_path = ustr ''/tmp/whatsapp-qr.png''"

definition usage :: "event list" where
  "usage =
     [Print_stderr (ustr ''Usage: python3 send_qr.py <owner_email> <base64_png_data>''),
      Print_stderr (ustr ''   OR: echo <data> | python3 send_qr.py <owner_email> -'')]"

definition stamp :: "env \<Rightarrow> nat \<Rightarrow> pystr" where
  "stamp e k = ustr ''['' @ strftime e k @ ustr ''] ''"

text \<open>
  The body of the \<^verbatim>\<open>try\<close> block up to the write: the decoded bytes once they are in
  the file, or the exception of the decoding or of the write.
\<close>

definition decode_and_save :: "env \<Rightarrow> pystr \<Rightarrow> py_exception + byte list" where
  "decode_and_save e b64_data =
     (case b64decode b64_data of
        Inl x \<Rightarrow> Inl x
      | Inr png_bytes \<Rightarrow>
          (case write_file e qr_path png_bytes of
             Some x \<Rightarrow> Inl x
           | None \<Rightarrow> Inr png_bytes))"

text \<open>
  The payload before and after the prefix removal: \<^verbatim>\<open>sys.argv[2]\<close>, or the stripped
  standard input when that argument is \<^verbatim>\<open>-\<close>.
\<close>

definition payload :: "pystr list \<Rightarrow> pystr \<Rightarrow> pystr" where
  "payload argv stdin = (if argv ! 2 = ustr ''-'' then strip stdin else argv ! 2)"

text \<open>
  What the run has done when the \<^verbatim>\<open>try\<close> block is left without an exception and
  the delivery is announced: the file is written, and two lines are on standard
  output, each with the time of its own call of \<^verbatim>\<open>time.strftime\<close>.
\<close>

definition saved_events :: "env \<Rightarrow> pystr \<Rightarrow> byte list \<Rightarrow> event list" where
  "saved_events e owner_email png_bytes =
     [File_written qr_path png_bytes,
      Print_stdout (stamp e 0 @ ustr ''QR image saved (''
         @ str_of_nat (length png_bytes) @ ustr '' bytes)''),
      Print_stdout (stamp e 1 @ ustr ''Emailing QR to '' @ owner_email @ ustr ''...'')]"

text \<open>
  \<^verbatim>\<open>main()\<close> on the argument vector \<open>argv\<close> (\<^verbatim>\<open>sys.argv\<close>, the script's name first) and
  the text \<open>stdin\<close> that \<^verbatim>\<open>sys.stdin.read()\<close> returns: the events of the run and how
  the process ends.
\<close>

definition main :: "env \<Rightarrow> pystr list \<Rightarrow> pystr \<Rightarrow> event list \<times> ending" where
  "main e argv stdin =
     (if length argv < 3 then (usage, Exit 1)
      else
        let owner_email = argv ! 1;
            b64_data = re_sub (payload argv stdin)
        in
          case decode_and_save e b64_data of
            Inl x \<Rightarrow>
              ([Print_stderr (ustr ''ERROR decoding base64: '' @ exc_text x)], Exit 1)
          | Inr png_bytes \<Rightarrow>
              (case email_qr e owner_email qr_path of
                 (sent, Inl x) \<Rightarrow> (saved_events e owner_email png_bytes @ sent, Unhandled x)
               | (sent, Inr True) \<Rightarrow>
                   (saved_events e owner_email png_bytes @ sent
                      @ [Print_stdout (stamp e 2 @ [0x2705] @ ustr '' QR emailed successfully!'')],
                    Exit 0)
               | (sent, Inr False) \<Rightarrow>
                   (saved_events e owner_email png_bytes @ sent
                      @ [Print_stderr (stamp e 2 @ [0x274C] @ ustr '' Email failed'')],
                    Exit 1)))"

section \<open>Reading a run\<close>

fun stdout_lines :: "event list \<Rightarrow> pystr list" where
  "stdout_lines [] = []"
| "stdout_lines (Print_stdout l # evs) = l # stdout_lines evs"
| "stdout_lines (_ # evs) = stdout_lines evs"

fun stderr_lines :: "event list \<Rightarrow> pystr list" where
  "stderr_lines [] = []"
| "stderr_lines (Print_stderr l # evs) = l # stderr_lines evs"
| "stderr_lines (_ # evs) = stderr_lines evs"

fun files_written :: "event list \<Rightarrow> (pystr \<times> byte list) list" where
  "files_written [] = []"
| "files_written (File_written p d # evs) = (p, d) # files_written evs"
| "files_written (_ # evs) = files_written evs"

fun subprocesses :: "event list \<Rightarrow> (pystr list \<times> nat) list" where
  "subprocesses [] = []"
| "subprocesses (Subprocess args t # evs) = (args, t) # subprocesses evs"
| "subprocesses (_ # evs) = subprocesses evs"

definition ascii_bytes :: "string \<Rightarrow> byte list" where
  "ascii_bytes s = map of_char s"

text \<open>
  Two sample environments: in both the file can be written and the clock reads
  noon; the mail helper exits with status 0 in the first, and with status 1 and a
  message on its error stream in the second.
\<close>

definition env_ok :: env where
  "env_ok =
     \<lparr>home = Some (ustr ''/home/owner''),
      strftime = (\<lambda>k. ustr ''12:00:00''),
      write_file = (\<lambda>path data. None),
      subprocess_run = (\<lambda>args t. Inr \<lparr>returncode = 0, stdout = [], stderr = []\<rparr>)\<rparr>"

definition env_mail_fails :: env where
  "env_mail_fails =
     \<lparr>home = Some (ustr ''/home/owner''),
      strftime = (\<lambda>k. ustr ''12:00:00''),
      write_file = (\<lambda>path data. None),
      subprocess_run =
        (\<lambda>args t. Inr \<lparr>returncode = 1, stdout = [], stderr = ustr ''no token''\<rparr>)\<rparr>"

text \<open>
  \<^verbatim>\<open>s.find(sub)\<close> of Python: the lowest index at which \<open>sub\<close> occurs in \<open>s\<close>, \<open>None\<close>
  for Python's \<open>-1\<close>. It states where the data-URI prefix stands in a payload.
\<close>

fun str_find :: "pystr \<Rightarrow> pystr \<Rightarrow> nat option" where
  "str_find sub [] = (if sub = [] then Some 0 else None)"
| "str_find sub (c # cs) =
     (if prefix sub (c # cs) then Some 0 else map_option Suc (str_find sub cs))"

text \<open>
  The characters of the base64 alphabet are those with an entry in the decoding
  table. A valid base64 string, in the words of the specification and as an encoder
  produces it: characters of the alphabet followed by no, one or two padding
  characters \<^verbatim>\<open>=\<close>, in all a multiple of four characters.
\<close>

definition base64_alphabet :: "nat \<Rightarrow> bool" where
  "base64_alphabet c = (table_a2b_base64 c \<noteq> None)"

definition valid_base64 :: "pystr \<Rightarrow> bool" where
  "valid_base64 s =
     (let body = takeWhile (\<lambda>c. c \<noteq> 61) s;
          padding = dropWhile (\<lambda>c. c \<noteq> 61) s
      in length s mod 4 = 0 \<and> list_all base64_alphabet body
         \<and> padding \<in> {[], [61], [61, 61]})"

section \<open>Facts about the events of a run\<close>

lemma stdout_lines_append: "stdout_lines (xs @ ys) = stdout_lines xs @ stdout_lines ys"
  by (induction xs rule: stdout_lines.induct) simp_all

lemma stderr_lines_append: "stderr_lines (xs @ ys) = stderr_lines xs @ stderr_lines ys"
  by (induction xs rule: stderr_lines.induct) simp_all

lemma files_written_append: "files_written (xs @ ys) = files_written xs @ files_written ys"
  by (induction xs rule: files_written.induct) simp_all

lemma subprocesses_append: "subprocesses (xs @ ys) = subprocesses xs @ subprocesses ys"
  by (induction xs rule: subprocesses.induct) simp_all

lemma email_qr_raises:
  "subprocess_run e (helper_args e owner p) 15 = Inl x \<Longrightarrow>
   email_qr e owner p = ([Subprocess (helper_args e owner p) 15], Inl x)"
  by (simp add: email_qr_def)

lemma email_qr_returns:
  "subprocess_run e (helper_args e owner p) 15 = Inr r \<Longrightarrow>
   email_qr e owner p =
     (Subprocess (helper_args e owner p) 15
        # (if returncode r \<noteq> 0 then [Print_stderr (ustr ''Email error: '' @ stderr r)] else []),
      Inr (returncode r = 0))"
  by (simp add: email_qr_def)

lemma email_qr_observed:
  "files_written (fst (email_qr e owner p)) = []"
  "stdout_lines (fst (email_qr e owner p)) = []"
  "subprocesses (fst (email_qr e owner p)) = [(helper_args e owner p, 15)]"
  by (cases "subprocess_run e (helper_args e owner p) 15"; simp add: email_qr_def)+

text \<open>
  Once the bytes are decoded and written, the run consists of the events of the
  save, those of \<open>email_qr\<close>, and at most a last printed line.
\<close>

lemma main_after_save:
  assumes "3 \<le> length argv"
    and "decode_and_save e (re_sub (payload argv stdin)) = Inr png_bytes"
  shows "\<exists>last. fst (main e argv stdin) =
           saved_events e (argv ! 1) png_bytes @ fst (email_qr e (argv ! 1) qr_path) @ last
         \<and> files_written last = [] \<and> subprocesses last = []"
proof (cases "email_qr e (argv ! 1) qr_path")
  case (Pair sent r)
  show ?thesis
  proof (cases r)
    case (Inl x)
    with Pair assms show ?thesis
      by (simp add: main_def)
  next
    case (Inr b)
    with Pair assms show ?thesis
      by (cases b) (simp_all add: main_def)
  qed
qed

section \<open>The payload \<^verbatim>\<open>SGVsbG8=\<close>\<close>

lemma b64decode_Hello: "b64decode (ustr ''SGVsbG8='') = Inr (ascii_bytes ''Hello'')"
  by (simp add: b64decode_def a2b_base64_def ustr_def table_a2b_base64_def ascii_bytes_def)

lemma re_sub_Hello: "re_sub (ustr ''SGVsbG8='') = ustr ''SGVsbG8=''"
  by (simp add: re_sub_def data_uri_prefix_def ustr_def)

lemma str_of_nat_digit: "n < 10 \<Longrightarrow> str_of_nat n = [48 + n]"
  by (simp add: str_of_nat.simps)

lemma sentinel_Hello: "ustr ''SGVsbG8='' \<noteq> ustr ''-''"
  by (simp add: ustr_def)

text \<open>
  Claim C1. With \<^verbatim>\<open>SGVsbG8=\<close> as the second command-line argument, and a file that
  can be written, the run writes one file: the fixed path \<^verbatim>\<open>/tmp/whatsapp-qr.png\<close>
  with exactly the 5 bytes of the ASCII text \<^verbatim>\<open>Hello\<close>; and the first line on standard
  output is the success message with the byte count 5.
\<close>

theorem hello_payload_saved:
  assumes "write_file e qr_path (ascii_bytes ''Hello'') = None"
  shows "files_written (fst (main e (prog # owner_email # ustr ''SGVsbG8='' # extra) stdin))
           = [(ustr ''/tmp/whatsapp-qr.png'', ascii_bytes ''Hello'')]
       \<and> length (ascii_bytes ''Hello'') = 5
       \<and> take 1 (stdout_lines (fst (main e (prog # owner_email # ustr ''SGVsbG8='' # extra) stdin)))
           = [ustr ''['' @ strftime e 0 @ ustr ''] QR image saved (5 bytes)'']"
proof -
  let ?argv = "prog # owner_email # ustr ''SGVsbG8='' # extra"
  have pl: "re_sub (payload ?argv stdin) = ustr ''SGVsbG8=''"
    by (simp add: payload_def sentinel_Hello re_sub_Hello)
  have ds: "decode_and_save e (re_sub (payload ?argv stdin)) = Inr (ascii_bytes ''Hello'')"
    using assms by (simp add: pl decode_and_save_def b64decode_Hello)
  have len: "length (ascii_bytes ''Hello'') = 5"
    by (simp add: ascii_bytes_def)
  from main_after_save [OF _ ds] obtain last where
    m: "fst (main e ?argv stdin) =
          saved_events e (?argv ! 1) (ascii_bytes ''Hello'')
            @ fst (email_qr e (?argv ! 1) qr_path) @ last"
    and l: "files_written last = []"
    by auto
  have "files_written (fst (main e ?argv stdin)) = [(qr_path, ascii_bytes ''Hello'')]"
    unfolding m by (simp add: l files_written_append email_qr_observed saved_events_def)
  moreover have "take 1 (stdout_lines (fst (main e ?argv stdin)))
      = [ustr ''['' @ strftime e 0 @ ustr ''] QR image saved (5 bytes)'']"
    unfolding m by (simp add: saved_events_def stamp_def len str_of_nat_digit ustr_def)
  ultimately show ?thesis
    using len by (simp add: qr_path_def)
qed

theorem hello_payload_saved_witness:
  "write_file env_ok qr_path (ascii_bytes ''Hello'') = None
   \<and> files_written (fst (main env_ok [ustr ''send_qr.py'', ustr ''owner@example.com'', ustr ''SGVsbG8=''] []))
           = [(ustr ''/tmp/whatsapp-qr.png'', ascii_bytes ''Hello'')]
   \<and> take 1 (stdout_lines (fst (main env_ok [ustr ''send_qr.py'', ustr ''owner@example.com'', ustr ''SGVsbG8=''] [])))
           = [ustr ''[12:00:00] QR image saved (5 bytes)'']"
proof -
  have w: "write_file env_ok qr_path (ascii_bytes ''Hello'') = None"
    by (simp add: env_ok_def)
  have t: "strftime env_ok 0 = ustr ''12:00:00''"
    by (simp add: env_ok_def)
  show ?thesis
    using w hello_payload_saved [OF w, of "ustr ''send_qr.py''" "ustr ''owner@example.com''" "[]" "[]"]
    by (simp add: t ustr_def)
qed

section \<open>Too few arguments\<close>

text \<open>
  Claim C5. With fewer than two arguments after the script's name, the run prints
  the two usage lines to the error stream and exits with status 1; nothing is decoded or
  printed to standard output, no file is written and no subprocess is run.
\<close>

theorem too_few_arguments:
  assumes "length args < 2"
  shows "main e (prog # args) stdin = (usage, Exit 1)
       \<and> stderr_lines usage =
           [ustr ''Usage: python3 send_qr.py <owner_email> <base64_png_data>'',
            ustr ''   OR: echo <data> | python3 send_qr.py <owner_email> -'']
       \<and> stdout_lines usage = [] \<and> files_written usage = [] \<and> subprocesses usage = []"
  using assms by (simp add: main_def usage_def)

theorem too_few_arguments_witness:
  "length [ustr ''owner@example.com''] < 2
   \<and> main env_ok [ustr ''send_qr.py'', ustr ''owner@example.com''] (ustr ''SGVsbG8='') = (usage, Exit 1)
   \<and> subprocesses usage = []"
  using too_few_arguments [of "[ustr ''owner@example.com'']" env_ok "ustr ''send_qr.py''" "ustr ''SGVsbG8=''"]
  by simp

section \<open>A payload that does not decode\<close>

text \<open>
  Claim C3. Whenever \<^verbatim>\<open>base64.b64decode\<close> raises on the payload, the run consists of
  one line on the error stream that reports the failure, and the exit status 1: no
  line on standard output (no success message), no file, and no subprocess, so the
  delivery is not attempted. The payload \<^verbatim>\<open>not-base64!!\<close> is such an input.
\<close>

theorem decode_failure_stops_run:
  assumes "3 \<le> length argv"
    and "b64decode (re_sub (payload argv stdin)) = Inl x"
  shows "main e argv stdin = ([Print_stderr (ustr ''ERROR decoding base64: '' @ exc_text x)], Exit 1)
       \<and> stderr_lines (fst (main e argv stdin)) = [ustr ''ERROR decoding base64: '' @ exc_text x]
       \<and> exit_status (snd (main e argv stdin)) \<noteq> 0
       \<and> stdout_lines (fst (main e argv stdin)) = []
       \<and> files_written (fst (main e argv stdin)) = []
       \<and> subprocesses (fst (main e argv stdin)) = []"
  using assms by (simp add: main_def decode_and_save_def)

lemma b64decode_not_base64:
  "b64decode (ustr ''not-base64!!'') =
     Inl (BinasciiError (ustr ''Invalid base64-encoded string: number of data characters (9) cannot be 1 more than a multiple of 4''))"
  by (simp add: b64decode_def a2b_base64_def ustr_def table_a2b_base64_def str_of_nat_digit)

lemma payload_not_base64:
  "re_sub (payload [prog, owner_email, ustr ''not-base64!!''] stdin) = ustr ''not-base64!!''"
  by (simp add: payload_def re_sub_def data_uri_prefix_def ustr_def)

theorem decode_failure_stops_run_witness:
  "3 \<le> length [ustr ''send_qr.py'', ustr ''owner@example.com'', ustr ''not-base64!!'']
   \<and> b64decode (re_sub (payload [ustr ''send_qr.py'', ustr ''owner@example.com'', ustr ''not-base64!!''] []))
       = Inl (BinasciiError (ustr ''Invalid base64-encoded string: number of data characters (9) cannot be 1 more than a multiple of 4''))
   \<and> main env_ok [ustr ''send_qr.py'', ustr ''owner@example.com'', ustr ''not-base64!!''] []
       = ([Print_stderr (ustr ''ERROR decoding base64: Invalid base64-encoded string: number of data characters (9) cannot be 1 more than a multiple of 4'')],
          Exit 1)"
proof -
  let ?argv = "[ustr ''send_qr.py'', ustr ''owner@example.com'', ustr ''not-base64!!'']"
  have n: "3 \<le> length ?argv" by simp
  have d: "b64decode (re_sub (payload ?argv []))
       = Inl (BinasciiError (ustr ''Invalid base64-encoded string: number of data characters (9) cannot be 1 more than a multiple of 4''))"
    by (simp only: payload_not_base64 b64decode_not_base64)
  have j: "ustr ''ERROR decoding base64: '' @ ustr ''Invalid base64-encoded string: number of data characters (9) cannot be 1 more than a multiple of 4''
      = ustr ''ERROR decoding base64: Invalid base64-encoded string: number of data characters (9) cannot be 1 more than a multiple of 4''"
    by (simp add: ustr_def)
  from decode_failure_stops_run [OF n d, of env_ok]
  have "main env_ok ?argv [] = ([Print_stderr (ustr ''ERROR decoding base64: Invalid base64-encoded string: number of data characters (9) cannot be 1 more than a multiple of 4'')], Exit 1)"
    by (simp add: j)
  with n d show ?thesis by blast
qed

section \<open>The empty payload\<close>

lemma b64decode_empty: "b64decode [] = Inr []"
  by (simp add: b64decode_def a2b_base64_def)

lemma re_sub_empty: "re_sub [] = []"
  by (simp add: re_sub_def)

text \<open>
  Claim C10. The empty payload decodes to zero bytes without an error. With a file
  that can be written, the run writes the empty byte sequence to the fixed path,
  reports 0 bytes, announces the delivery and runs the mail helper.
\<close>

theorem empty_payload_saved:
  assumes "write_file e qr_path [] = None"
  shows "b64decode (re_sub []) = Inr []
       \<and> files_written (fst (main e (prog # owner_email # [] # extra) stdin))
           = [(ustr ''/tmp/whatsapp-qr.png'', [])]
       \<and> take 2 (stdout_lines (fst (main e (prog # owner_email # [] # extra) stdin)))
           = [ustr ''['' @ strftime e 0 @ ustr ''] QR image saved (0 bytes)'',
              ustr ''['' @ strftime e 1 @ ustr ''] Emailing QR to '' @ owner_email @ ustr ''...'']
       \<and> subprocesses (fst (main e (prog # owner_email # [] # extra) stdin))
           = [(helper_args e owner_email qr_path, 15)]"
proof -
  let ?argv = "prog # owner_email # [] # extra"
  have pl: "re_sub (payload ?argv stdin) = []"
    by (simp add: payload_def re_sub_empty ustr_def)
  have ds: "decode_and_save e (re_sub (payload ?argv stdin)) = Inr []"
    using assms by (simp add: pl decode_and_save_def b64decode_empty)
  from main_after_save [OF _ ds] obtain last where
    m: "fst (main e ?argv stdin) =
          saved_events e (?argv ! 1) [] @ fst (email_qr e (?argv ! 1) qr_path) @ last"
    and l: "files_written last = []" "subprocesses last = []"
    by auto
  have "files_written (fst (main e ?argv stdin)) = [(qr_path, [])]"
    unfolding m by (simp add: l files_written_append email_qr_observed saved_events_def)
  moreover have "take 2 (stdout_lines (fst (main e ?argv stdin)))
      = [ustr ''['' @ strftime e 0 @ ustr ''] QR image saved (0 bytes)'',
         ustr ''['' @ strftime e 1 @ ustr ''] Emailing QR to '' @ owner_email @ ustr ''...'']"
    unfolding m by (simp add: saved_events_def stamp_def str_of_nat_digit ustr_def)
  moreover have "subprocesses (fst (main e ?argv stdin)) = [(helper_args e owner_email qr_path, 15)]"
    unfolding m by (simp add: l subprocesses_append email_qr_observed saved_events_def)
  ultimately show ?thesis
    by (simp add: qr_path_def b64decode_empty re_sub_empty)
qed

theorem empty_payload_saved_witness:
  "write_file env_ok qr_path [] = None
   \<and> files_written (fst (main env_ok [ustr ''send_qr.py'', ustr ''owner@example.com'', []] []))
           = [(ustr ''/tmp/whatsapp-qr.png'', [])]
   \<and> subprocesses (fst (main env_ok [ustr ''send_qr.py'', ustr ''owner@example.com'', []] []))
           = [(helper_args env_ok (ustr ''owner@example.com'') qr_path, 15)]"
proof -
  have w: "write_file env_ok qr_path [] = None"
    by (simp add: env_ok_def)
  show ?thesis
    using w empty_payload_saved [OF w, of "ustr ''send_qr.py''" "ustr ''owner@example.com''" "[]" "[]"]
    by simp
qed

section \<open>The delivery\<close>

lemma html_refers_to_attachment:
  "\<exists>before after. html = before @ ustr ''<img src='cid:qrcode' '' @ after"
proof (intro exI)
  show "html =
     (ustr ''<h2>'' @ [0x26A1] @ ustr '' Scan this QR code with WhatsApp NOW</h2>''
       @ ustr ''<p><b>Open WhatsApp '' @ [0x2192] @ ustr '' Settings '' @ [0x2192]
       @ ustr '' Linked Devices '' @ [0x2192] @ ustr '' Link a Device</b></p>'' @ ustr ''<p>'')
     @ ustr ''<img src='cid:qrcode' ''
     @ (ustr ''width='300'/></p>'' @ ustr ''<p>'' @ [0x26A0, 0xFE0F]
       @ ustr '' This code expires in about 60 seconds! Scan it immediately.</p>''
       @ ustr ''<p>If it expired, just reply <b>connect</b> again and I'll send a fresh one.</p>'')"
    by (simp add: html_def ustr_def)
qed

text \<open>
  Claim C7. Whenever the payload decodes and the bytes are written, the run starts
  exactly one subprocess: \<^verbatim>\<open>python3\<close> on the mail helper under the user's configuration
  directory, in the mode \<^verbatim>\<open>send_html\<close>, with the owner's address as sender and as
  recipient, the fixed subject, the fixed HTML body (which shows the image
  \<^verbatim>\<open>cid:qrcode\<close>), and the attachment \<^verbatim>\<open>qrcode:\<close> followed by the path of the saved
  file; the wait is bounded by 15 seconds.
\<close>

theorem delivery_invocation:
  assumes "3 \<le> length argv"
    and "b64decode (re_sub (payload argv stdin)) = Inr png_bytes"
    and "write_file e qr_path png_bytes = None"
  shows "subprocesses (fst (main e argv stdin)) =
           [([ustr ''python3'', expanduser e (ustr ''~/.config/agents-plane/gmail.py''),
              ustr ''send_html'', argv ! 1, argv ! 1, subject, html,
              ustr ''qrcode:'' @ qr_path], 15)]
       \<and> files_written (fst (main e argv stdin)) = [(qr_path, png_bytes)]
       \<and> qr_path = ustr ''/tmp/whatsapp-qr.png''
       \<and> (\<exists>before after. html = before @ ustr ''<img src='cid:qrcode' '' @ after)"
proof -
  have ds: "decode_and_save e (re_sub (payload argv stdin)) = Inr png_bytes"
    using assms by (simp add: decode_and_save_def)
  from main_after_save [OF assms(1) ds] obtain last where
    m: "fst (main e argv stdin) =
          saved_events e (argv ! 1) png_bytes @ fst (email_qr e (argv ! 1) qr_path) @ last"
    and l: "files_written last = []" "subprocesses last = []"
    by auto
  have "subprocesses (fst (main e argv stdin)) = [(helper_args e (argv ! 1) qr_path, 15)]"
    unfolding m by (simp add: l subprocesses_append email_qr_observed saved_events_def)
  moreover have "files_written (fst (main e argv stdin)) = [(qr_path, png_bytes)]"
    unfolding m by (simp add: l files_written_append email_qr_observed saved_events_def)
  ultimately show ?thesis
    using html_refers_to_attachment by (simp add: helper_args_def qr_path_def)
qed

theorem delivery_invocation_witness:
  "3 \<le> length [ustr ''send_qr.py'', ustr ''owner@example.com'', ustr ''SGVsbG8='']
   \<and> b64decode (re_sub (payload [ustr ''send_qr.py'', ustr ''owner@example.com'', ustr ''SGVsbG8=''] []))
         = Inr (ascii_bytes ''Hello'')
   \<and> write_file env_ok qr_path (ascii_bytes ''Hello'') = None
   \<and> subprocesses (fst (main env_ok [ustr ''send_qr.py'', ustr ''owner@example.com'', ustr ''SGVsbG8=''] [])) =
           [([ustr ''python3'', ustr ''/home/owner/.config/agents-plane/gmail.py'',
              ustr ''send_html'', ustr ''owner@example.com'', ustr ''owner@example.com'', subject, html,
              ustr ''qrcode:/tmp/whatsapp-qr.png''], 15)]"
proof -
  let ?argv = "[ustr ''send_qr.py'', ustr ''owner@example.com'', ustr ''SGVsbG8='']"
  have n: "3 \<le> length ?argv" by simp
  have d: "b64decode (re_sub (payload ?argv [])) = Inr (ascii_bytes ''Hello'')"
    by (simp add: payload_def sentinel_Hello re_sub_Hello b64decode_Hello)
  have w: "write_file env_ok qr_path (ascii_bytes ''Hello'') = None"
    by (simp add: env_ok_def)
  have x: "expanduser env_ok (ustr ''~/.config/agents-plane/gmail.py'')
             = ustr ''/home/owner/.config/agents-plane/gmail.py''"
    by (simp add: expanduser_def env_ok_def ustr_def)
  have q: "ustr ''qrcode:'' @ qr_path = ustr ''qrcode:/tmp/whatsapp-qr.png''"
    by (simp add: qr_path_def ustr_def)
  from delivery_invocation [OF n d w]
  have "subprocesses (fst (main env_ok ?argv [])) =
           [([ustr ''python3'', ustr ''/home/owner/.config/agents-plane/gmail.py'',
              ustr ''send_html'', ustr ''owner@example.com'', ustr ''owner@example.com'', subject, html,
              ustr ''qrcode:/tmp/whatsapp-qr.png''], 15)]"
    by (simp add: x q)
  with n d w show ?thesis by blast
qed

text \<open>
  Claim C4. When the mail helper has run to its end: with a non-zero return code,
  \<open>email_qr\<close> prints the helper's error text to the error stream and returns false,
  and the program prints its own failure line and exits with status 1; with the
  return code zero, \<open>email_qr\<close> returns true, nothing goes to the error stream and
  the program exits with status 0.
\<close>

theorem helper_exit_code_decides:
  assumes "3 \<le> length argv"
    and "decode_and_save e (re_sub (payload argv stdin)) = Inr png_bytes"
    and "subprocess_run e (helper_args e (argv ! 1) qr_path) 15 = Inr r"
  shows "if returncode r \<noteq> 0
         then snd (email_qr e (argv ! 1) qr_path) = Inr False
            \<and> stderr_lines (fst (email_qr e (argv ! 1) qr_path)) = [ustr ''Email error: '' @ stderr r]
            \<and> stderr_lines (fst (main e argv stdin)) =
                 [ustr ''Email error: '' @ stderr r, stamp e 2 @ [0x274C] @ ustr '' Email failed'']
            \<and> snd (main e argv stdin) = Exit 1
         else snd (email_qr e (argv ! 1) qr_path) = Inr True
            \<and> stderr_lines (fst (main e argv stdin)) = []
            \<and> snd (main e argv stdin) = Exit 0"
  using assms email_qr_returns [OF assms(3)]
  by (simp add: main_def saved_events_def Let_def)

theorem helper_exit_code_decides_witness:
  "snd (main env_mail_fails [ustr ''send_qr.py'', ustr ''owner@example.com'', ustr ''SGVsbG8=''] []) = Exit 1
   \<and> stderr_lines (fst (main env_mail_fails [ustr ''send_qr.py'', ustr ''owner@example.com'', ustr ''SGVsbG8=''] []))
        = [ustr ''Email error: no token'', ustr ''[12:00:00] '' @ [0x274C] @ ustr '' Email failed'']
   \<and> snd (main env_ok [ustr ''send_qr.py'', ustr ''owner@example.com'', ustr ''SGVsbG8=''] []) = Exit 0"
proof -
  let ?argv = "[ustr ''send_qr.py'', ustr ''owner@example.com'', ustr ''SGVsbG8='']"
  have n: "3 \<le> length ?argv" by simp
  have p: "re_sub (payload ?argv []) = ustr ''SGVsbG8=''"
    by (simp add: payload_def sentinel_Hello re_sub_Hello)
  have d1: "decode_and_save env_mail_fails (re_sub (payload ?argv [])) = Inr (ascii_bytes ''Hello'')"
    by (simp add: p decode_and_save_def b64decode_Hello env_mail_fails_def)
  have d2: "decode_and_save env_ok (re_sub (payload ?argv [])) = Inr (ascii_bytes ''Hello'')"
    by (simp add: p decode_and_save_def b64decode_Hello env_ok_def)
  have s1: "subprocess_run env_mail_fails (helper_args env_mail_fails (?argv ! 1) qr_path) 15
              = Inr \<lparr>returncode = 1, stdout = [], stderr = ustr ''no token''\<rparr>"
    by (simp add: env_mail_fails_def)
  have s2: "subprocess_run env_ok (helper_args env_ok (?argv ! 1) qr_path) 15
              = Inr \<lparr>returncode = 0, stdout = [], stderr = []\<rparr>"
    by (simp add: env_ok_def)
  have t: "stamp env_mail_fails 2 = ustr ''[12:00:00] ''"
    by (simp add: stamp_def env_mail_fails_def ustr_def)
  have j: "ustr ''Email error: '' @ ustr ''no token'' = ustr ''Email error: no token''"
    by (simp add: ustr_def)
  from helper_exit_code_decides [OF n d1 s1] helper_exit_code_decides [OF n d2 s2]
  show ?thesis
    by (simp add: t j)
qed

section \<open>Where the prefix is removed\<close>

lemma re_sub_at_start: "re_sub (data_uri_prefix @ s) = s"
  by (simp add: re_sub_def)

lemma re_sub_elsewhere: "\<not> prefix data_uri_prefix p \<Longrightarrow> re_sub p = p"
  by (simp add: re_sub_def)

lemma str_find_occurs: "str_find sub p = Some i \<Longrightarrow> i \<le> length p \<and> prefix sub (drop i p)"
  by (induction p arbitrary: i) (auto split: if_splits)

lemma str_find_positive: "str_find sub p = Some i \<Longrightarrow> 0 < i \<Longrightarrow> \<not> prefix sub p"
  by (cases p) (auto split: if_splits)

text \<open>
  Claim C9. The substitution removes the data-URI prefix at the very start of the
  payload, and nothing else: a payload in which the prefix stands at an index
  greater than zero (its first occurrence, \<open>str_find\<close>), and more generally every
  payload that does not start with the prefix, reaches the decoder unchanged; and of
  a prefix written twice at the start only the first copy is removed.
\<close>

theorem prefix_removed_only_at_start:
  "re_sub (data_uri_prefix @ s) = s
   \<and> (str_find data_uri_prefix p = Some i \<and> 0 < i \<longrightarrow> re_sub p = p)
   \<and> (\<not> prefix data_uri_prefix p \<longrightarrow> re_sub p = p)
   \<and> re_sub (data_uri_prefix @ data_uri_prefix @ s) = data_uri_prefix @ s"
  using str_find_positive [of data_uri_prefix p i]
  by (simp add: re_sub_at_start re_sub_elsewhere)

lemma str_find_example:
  "str_find data_uri_prefix (ustr ''x'' @ data_uri_prefix @ ustr ''SGVsbG8='') = Some 1"
  by (simp add: data_uri_prefix_def ustr_def)

theorem prefix_removed_only_at_start_witness:
  "str_find data_uri_prefix (ustr ''x'' @ data_uri_prefix @ ustr ''SGVsbG8='') = Some 1
   \<and> (0::nat) < 1
   \<and> re_sub (ustr ''x'' @ data_uri_prefix @ ustr ''SGVsbG8='') = ustr ''x'' @ data_uri_prefix @ ustr ''SGVsbG8=''
   \<and> re_sub (data_uri_prefix @ data_uri_prefix @ ustr ''SGVsbG8='') = data_uri_prefix @ ustr ''SGVsbG8=''
   \<and> re_sub (data_uri_prefix @ ustr ''SGVsbG8='') = ustr ''SGVsbG8=''"
  using prefix_removed_only_at_start
          [of "ustr ''SGVsbG8=''" "ustr ''x'' @ data_uri_prefix @ ustr ''SGVsbG8=''" 1]
        str_find_example
  by simp

section \<open>Payload on standard input\<close>

lemma strip_example:
  "strip (ustr '' data:image/png;base64,SGVsbG8='') = data_uri_prefix @ ustr ''SGVsbG8=''"
  by (simp add: strip_def isspace_def data_uri_prefix_def ustr_def)

lemma b64decode_spaced:
  "b64decode (re_sub (ustr '' data:image/png;base64,SGVsbG8='')) = Inl (BinasciiError (ustr ''Incorrect padding''))"
  by (simp add: re_sub_def data_uri_prefix_def b64decode_def a2b_base64_def ustr_def table_a2b_base64_def)

text \<open>
  Claim C6, as stated, fails. The payload \<^verbatim>\<open> data:image/png;base64,SGVsbG8=\<close>, with a
  space in front, is stripped when it is read from standard input: the prefix is then
  at the start and removed, the bytes of \<^verbatim>\<open>Hello\<close> are saved and the run exits with
  status 0. Given as the second argument, it keeps its space, the prefix stays, and
  the decoding fails with status 1.
\<close>

theorem stdin_differs_from_argument:
  "snd (main env_ok [ustr ''send_qr.py'', ustr ''owner@example.com'', ustr ''-'']
          (ustr '' data:image/png;base64,SGVsbG8='')) = Exit 0
   \<and> files_written (fst (main env_ok [ustr ''send_qr.py'', ustr ''owner@example.com'', ustr ''-'']
          (ustr '' data:image/png;base64,SGVsbG8=''))) = [(qr_path, ascii_bytes ''Hello'')]
   \<and> main env_ok [ustr ''send_qr.py'', ustr ''owner@example.com'',
          ustr '' data:image/png;base64,SGVsbG8=''] (ustr '' data:image/png;base64,SGVsbG8='')
       = ([Print_stderr (ustr ''ERROR decoding base64: Incorrect padding'')], Exit 1)"
proof -
  let ?p = "ustr '' data:image/png;base64,SGVsbG8=''"
  let ?a = "[ustr ''send_qr.py'', ustr ''owner@example.com'', ustr ''-'']"
  let ?b = "[ustr ''send_qr.py'', ustr ''owner@example.com'', ?p]"
  have pa: "re_sub (payload ?a ?p) = ustr ''SGVsbG8=''"
    by (simp add: payload_def strip_example re_sub_at_start)
  have da: "decode_and_save env_ok (re_sub (payload ?a ?p)) = Inr (ascii_bytes ''Hello'')"
    by (simp add: pa decode_and_save_def b64decode_Hello env_ok_def)
  have sa: "subprocess_run env_ok (helper_args env_ok (?a ! 1) qr_path) 15
              = Inr \<lparr>returncode = 0, stdout = [], stderr = []\<rparr>"
    by (simp add: env_ok_def)
  have ma: "main env_ok ?a ?p =
      (saved_events env_ok (?a ! 1) (ascii_bytes ''Hello'')
         @ [Subprocess (helper_args env_ok (?a ! 1) qr_path) 15]
         @ [Print_stdout (stamp env_ok 2 @ [0x2705] @ ustr '' QR emailed successfully!'')], Exit 0)"
    using da email_qr_returns [OF sa] by (simp add: main_def Let_def)
  have pb: "payload ?b ?p = ?p"
    by (simp add: payload_def ustr_def)
  have db: "decode_and_save env_ok (re_sub (payload ?b ?p)) = Inl (BinasciiError (ustr ''Incorrect padding''))"
    by (simp only: pb decode_and_save_def b64decode_spaced sum.case)
  have mb: "main env_ok ?b ?p =
      ([Print_stderr (ustr ''ERROR decoding base64: '' @ ustr ''Incorrect padding'')], Exit 1)"
    using db by (simp add: main_def Let_def)
  have j: "ustr ''ERROR decoding base64: '' @ ustr ''Incorrect padding'' = ustr ''ERROR decoding base64: Incorrect padding''"
    by (simp add: ustr_def)
  show ?thesis
    unfolding ma mb j by (simp add: saved_events_def)
qed

text \<open>
  Claim C6, amended. A payload \<open>p\<close> read from standard input behaves as the payload
  \<open>strip p\<close> given as the second argument (the whole run is the same: events and
  exit), provided \<open>strip p\<close> is not itself the sentinel \<^verbatim>\<open>-\<close>. So the two ways agree on
  every payload without leading or trailing whitespace.
\<close>

theorem stdin_payload_is_stripped_argument:
  assumes "strip p \<noteq> ustr ''-''"
  shows "main e (prog # owner_email # ustr ''-'' # extra) p
           = main e (prog # owner_email # strip p # extra) other_stdin
       \<and> (strip p = p \<longrightarrow>
            main e (prog # owner_email # ustr ''-'' # extra) p
              = main e (prog # owner_email # p # extra) other_stdin)"
proof -
  have direct: "payload (prog # owner_email # strip p # extra) other_stdin = strip p"
    using assms by (simp add: payload_def)
  have sentinel: "payload (prog # owner_email # ustr ''-'' # extra) p = strip p"
    by (simp add: payload_def)
  have "main e (prog # owner_email # ustr ''-'' # extra) p
          = main e (prog # owner_email # strip p # extra) other_stdin"
    by (simp add: main_def direct sentinel)
  then show ?thesis
    by (cases "strip p = p") simp_all
qed

lemma strip_Hello_newline: "strip (ustr ''SGVsbG8='' @ [10]) = ustr ''SGVsbG8=''"
  by (simp add: strip_def isspace_def ustr_def)

theorem stdin_payload_is_stripped_argument_witness:
  "strip (ustr ''SGVsbG8='' @ [10]) \<noteq> ustr ''-''
   \<and> main env_ok [ustr ''send_qr.py'', ustr ''owner@example.com'', ustr ''-''] (ustr ''SGVsbG8='' @ [10])
       = main env_ok [ustr ''send_qr.py'', ustr ''owner@example.com'', ustr ''SGVsbG8=''] []"
proof -
  have n: "strip (ustr ''SGVsbG8='' @ [10]) \<noteq> ustr ''-''"
    by (simp add: strip_Hello_newline) (simp add: ustr_def)
  from stdin_payload_is_stripped_argument [OF n, of env_ok "ustr ''send_qr.py''" "ustr ''owner@example.com''" "[]" "[]"]
  show ?thesis
    using n by (simp add: strip_Hello_newline)
qed

section \<open>Characters outside the alphabet\<close>

lemma a2b_loop_skips:
  "a2b_loop (filter (\<lambda>c. c = 61 \<or> base64_alphabet c) s) quad_pos leftchar pads bin_data
     = a2b_loop s quad_pos leftchar pads bin_data"
  by (induction s quad_pos leftchar pads bin_data rule: a2b_loop.induct)
     (auto simp: base64_alphabet_def split: option.splits)

lemma b64decode_with_bang: "b64decode (ustr ''SGVs!bG8='') = Inr (ascii_bytes ''Hello'')"
  by (simp add: b64decode_def a2b_base64_def ustr_def table_a2b_base64_def ascii_bytes_def)

lemma re_sub_with_bang: "re_sub (ustr ''SGVs!bG8='') = ustr ''SGVs!bG8=''"
  by (simp add: re_sub_def data_uri_prefix_def ustr_def)

lemma filter_with_bang:
  "filter (\<lambda>c. c = 61 \<or> base64_alphabet c) (ustr ''SGVs!bG8='') = ustr ''SGVsbG8=''"
  by (simp add: base64_alphabet_def table_a2b_base64_def ustr_def)

text \<open>
  Claim C8. The payload \<^verbatim>\<open>SGVs!bG8=\<close> has a character outside the base64 alphabet,
  and still decodes: the decoder skips the \<^verbatim>\<open>!\<close> and decodes what remains,
  \<^verbatim>\<open>SGVsbG8=\<close>, to the bytes of \<^verbatim>\<open>Hello\<close>. With a file that can be written, the run
  saves these bytes, reports 5 bytes and runs the mail helper: it does not end with
  a decode error.
\<close>

theorem invalid_characters_discarded:
  assumes "write_file e qr_path (ascii_bytes ''Hello'') = None"
  shows "list_ex (\<lambda>c. c \<noteq> 61 \<and> table_a2b_base64 c = None) (ustr ''SGVs!bG8='')
       \<and> filter (\<lambda>c. c = 61 \<or> base64_alphabet c) (ustr ''SGVs!bG8='') = ustr ''SGVsbG8=''
       \<and> b64decode (ustr ''SGVs!bG8='') = b64decode (ustr ''SGVsbG8='')
       \<and> b64decode (ustr ''SGVs!bG8='') = Inr (ascii_bytes ''Hello'')
       \<and> files_written (fst (main e (prog # owner_email # ustr ''SGVs!bG8='' # extra) stdin))
            = [(qr_path, ascii_bytes ''Hello'')]
       \<and> subprocesses (fst (main e (prog # owner_email # ustr ''SGVs!bG8='' # extra) stdin))
            = [(helper_args e owner_email qr_path, 15)]
       \<and> take 1 (stdout_lines (fst (main e (prog # owner_email # ustr ''SGVs!bG8='' # extra) stdin)))
            = [ustr ''['' @ strftime e 0 @ ustr ''] QR image saved (5 bytes)'']"
proof -
  let ?argv = "prog # owner_email # ustr ''SGVs!bG8='' # extra"
  have s: "ustr ''SGVs!bG8='' \<noteq> ustr ''-''"
    by (simp add: ustr_def)
  have pl: "re_sub (payload ?argv stdin) = ustr ''SGVs!bG8=''"
    by (simp add: payload_def s re_sub_with_bang)
  have ds: "decode_and_save e (re_sub (payload ?argv stdin)) = Inr (ascii_bytes ''Hello'')"
    using assms by (simp add: pl decode_and_save_def b64decode_with_bang)
  have len: "length (ascii_bytes ''Hello'') = 5"
    by (simp add: ascii_bytes_def)
  from main_after_save [OF _ ds] obtain last where
    m: "fst (main e ?argv stdin) =
          saved_events e (?argv ! 1) (ascii_bytes ''Hello'')
            @ fst (email_qr e (?argv ! 1) qr_path) @ last"
    and l: "files_written last = []" "subprocesses last = []"
    by auto
  have f: "files_written (fst (main e ?argv stdin)) = [(qr_path, ascii_bytes ''Hello'')]"
    unfolding m by (simp add: l files_written_append email_qr_observed saved_events_def)
  have p: "subprocesses (fst (main e ?argv stdin)) = [(helper_args e owner_email qr_path, 15)]"
    unfolding m by (simp add: l subprocesses_append email_qr_observed saved_events_def)
  have o: "take 1 (stdout_lines (fst (main e ?argv stdin)))
      = [ustr ''['' @ strftime e 0 @ ustr ''] QR image saved (5 bytes)'']"
    unfolding m by (simp add: saved_events_def stamp_def len str_of_nat_digit ustr_def)
  have x: "list_ex (\<lambda>c. c \<noteq> 61 \<and> table_a2b_base64 c = None) (ustr ''SGVs!bG8='')"
    by (simp add: ustr_def table_a2b_base64_def)
  show ?thesis
    using f p o x by (simp add: b64decode_with_bang b64decode_Hello filter_with_bang)
qed

theorem invalid_characters_discarded_witness:
  "write_file env_ok qr_path (ascii_bytes ''Hello'') = None
   \<and> b64decode (ustr ''SGVs!bG8='') = Inr (ascii_bytes ''Hello'')
   \<and> files_written (fst (main env_ok [ustr ''send_qr.py'', ustr ''owner@example.com'', ustr ''SGVs!bG8=''] []))
        = [(qr_path, ascii_bytes ''Hello'')]"
proof -
  have w: "write_file env_ok qr_path (ascii_bytes ''Hello'') = None"
    by (simp add: env_ok_def)
  from invalid_characters_discarded [OF w, of "ustr ''send_qr.py''" "ustr ''owner@example.com''" "[]" "[]"]
  show ?thesis
    using w by blast
qed

section \<open>Valid base64 with and without the prefix\<close>

lemma base64_alphabet_ascii: "base64_alphabet c \<Longrightarrow> c < 128 \<and> c \<noteq> 61"
  by (simp add: base64_alphabet_def table_a2b_base64_def split: if_splits)

lemma a2b_loop_valid:
  assumes "list_all base64_alphabet body"
    and "padding \<in> {[], [61], [61, 61]}"
    and "quad_pos < 4"
    and "(quad_pos + length body + length padding) mod 4 = 0"
  shows "\<exists>bytes. a2b_loop (body @ padding) quad_pos leftchar pads bin_data = Inr bytes"
  using assms
proof (induction body arbitrary: quad_pos leftchar pads bin_data)
  case Nil
  from Nil.prems(2) consider "padding = []" | "padding = [61]" | "padding = [61, 61]"
    by auto
  then show ?case
  proof cases
    case 1
    with Nil.prems(4) have "quad_pos mod 4 = 0" by simp
    with Nil.prems(3) have "quad_pos = 0" by presburger
    with 1 show ?thesis by simp
  next
    case 2
    with Nil.prems(4) have "(quad_pos + 1) mod 4 = 0" by simp
    with Nil.prems(3) have "quad_pos = 3" by presburger
    with 2 show ?thesis by simp
  next
    case 3
    with Nil.prems(4) have "(quad_pos + 2) mod 4 = 0" by simp
    with Nil.prems(3) have "quad_pos = 2" by presburger
    with 3 show ?thesis by simp
  qed
next
  case (Cons c body)
  from Cons.prems(1) have c: "c \<noteq> 61" and b: "list_all base64_alphabet body"
    using base64_alphabet_ascii by auto
  from Cons.prems(1) obtain v where v: "table_a2b_base64 c = Some v"
    by (auto simp: base64_alphabet_def)
  consider "quad_pos = 0" | "quad_pos = 1" | "quad_pos = 2" | "quad_pos = 3"
    using Cons.prems(3) by linarith
  then show ?case
  proof cases
    case 1
    with Cons.prems(4) have "(1 + length body + length padding) mod 4 = 0"
      by (simp add: add.assoc)
    from Cons.IH [OF b Cons.prems(2) _ this, of v 0 bin_data] 1 c v show ?thesis by simp
  next
    case 2
    with Cons.prems(4) have "(2 + length body + length padding) mod 4 = 0"
      by (simp add: add.assoc)
    from Cons.IH [OF b Cons.prems(2) _ this] 2 c v show ?thesis by simp
  next
    case 3
    with Cons.prems(4) have "(3 + length body + length padding) mod 4 = 0"
      by (simp add: add.assoc)
    from Cons.IH [OF b Cons.prems(2) _ this] 3 c v show ?thesis by simp
  next
    case 4
    with Cons.prems(4) have "(0 + length body + length padding) mod 4 = 0"
      by (simp add: mod_Suc split: if_splits) presburger
    from Cons.IH [OF b Cons.prems(2) _ this] 4 c v show ?thesis by simp
  qed
qed

lemma valid_base64_ascii: "valid_base64 s \<Longrightarrow> \<not> list_ex (\<lambda>c. 128 \<le> c) s"
proof -
  assume v: "valid_base64 s"
  define body where "body = takeWhile (\<lambda>c. c \<noteq> 61) s"
  define padding where "padding = dropWhile (\<lambda>c. c \<noteq> 61) s"
  have s: "s = body @ padding"
    by (simp add: body_def padding_def)
  have "list_all base64_alphabet body" and p: "padding \<in> {[], [61], [61, 61]}"
    using v by (simp_all add: valid_base64_def Let_def body_def padding_def)
  then have "\<forall>c\<in>set body. c < 128"
    using base64_alphabet_ascii by (auto simp: list_all_iff)
  moreover have "\<forall>c\<in>set padding. c < 128"
    using p by auto
  ultimately have "\<forall>c\<in>set s. c < 128"
    unfolding s by auto
  then show ?thesis
    by (auto simp: list_ex_iff)
qed

lemma valid_base64_decodes: "valid_base64 s \<Longrightarrow> \<exists>bytes. b64decode s = Inr bytes"
proof -
  assume v: "valid_base64 s"
  let ?body = "takeWhile (\<lambda>c. c \<noteq> 61) s" and ?pad = "dropWhile (\<lambda>c. c \<noteq> 61) s"
  have len: "(0 + length ?body + length ?pad) mod 4 = 0"
    using v by (simp add: valid_base64_def Let_def flip: length_append)
  have "\<exists>bytes. a2b_loop (?body @ ?pad) 0 0 0 [] = Inr bytes"
    using v by (intro a2b_loop_valid len) (simp_all add: valid_base64_def Let_def)
  then show ?thesis
    using valid_base64_ascii [OF v] by (simp add: b64decode_def a2b_base64_def)
qed

lemma valid_base64_no_prefix: "valid_base64 s \<Longrightarrow> \<not> prefix data_uri_prefix s"
proof
  assume v: "valid_base64 s" and "prefix data_uri_prefix s"
  then obtain t where "s = data_uri_prefix @ t"
    by (auto elim: prefixE)
  then have "\<not> list_all base64_alphabet (takeWhile (\<lambda>c. c \<noteq> 61) s)"
    by (simp add: data_uri_prefix_def ustr_def base64_alphabet_def table_a2b_base64_def)
  with v show False
    by (simp add: valid_base64_def Let_def)
qed

text \<open>
  Claim C2. For every valid base64 string, removing the prefix and decoding gives
  the same result with the data-URI prefix in front as without it, and this result
  is a byte sequence (the decoding does not fail).
\<close>

theorem prefix_does_not_change_bytes:
  assumes "valid_base64 s"
  shows "b64decode (re_sub (data_uri_prefix @ s)) = b64decode (re_sub s)
       \<and> (\<exists>bytes. b64decode (re_sub s) = Inr bytes)"
  using valid_base64_no_prefix [OF assms] valid_base64_decodes [OF assms]
  by (simp add: re_sub_def)

lemma valid_Hello: "valid_base64 (ustr ''SGVsbG8='')"
  by (simp add: valid_base64_def base64_alphabet_def table_a2b_base64_def ustr_def)

theorem prefix_does_not_change_bytes_witness:
  "valid_base64 (ustr ''SGVsbG8='')
   \<and> b64decode (re_sub (data_uri_prefix @ ustr ''SGVsbG8='')) = Inr (ascii_bytes ''Hello'')
   \<and> b64decode (re_sub (ustr ''SGVsbG8='')) = Inr (ascii_bytes ''Hello'')"
  using valid_Hello prefix_does_not_change_bytes [OF valid_Hello]
  by (simp add: re_sub_Hello b64decode_Hello)

end
